theory Spec2Isabelle
  imports Complex_Main
begin

section \<open>Cloud chamber trainer: geometry, scenario catalog and quiz state\<close>

text \<open>
  A shallow embedding of \<^verbatim>\<open>cloud_chamber_gui.py\<close>. Exceptions are values of a sum
  type. Python strings are \<open>string\<close> values holding their UTF-8 bytes, which keeps
  equality, emptiness, concatenation and containment as they are on code points.

  Python floats are read as real numbers. This is an idealisation: rounding, overflow and
  the domain errors of \<^verbatim>\<open>math.cos\<close> and \<^verbatim>\<open>math.sin\<close> on infinite arguments are
  outside it. The value of a computed coordinate is therefore not the one the program
  computes, and nothing below states a property of such a value. What is taken from the
  geometry is its control flow on the arguments the program itself passes: which calls
  return, with how many points, and which calls receive the same arguments.
\<close>

subsection \<open>Errors\<close>

datatype error = ZeroDivisionError | TypeError | KeyError | IndexError

subsection \<open>Geometry helpers\<close>

type_synonym point = "real \<times> real"

record World =
  xmin :: real
  xmax :: real
  ymin :: real
  ymax :: real
  margin :: real

text \<open>\<^verbatim>\<open>World.__init__\<close> with its default arguments.\<close>

definition World_init :: World where
  "World_init = \<lparr>xmin = -10, xmax = 10, ymin = -10, ymax = 10, margin = 40\<rparr>"

text \<open>Python's true division raises on a zero divisor.\<close>

definition py_div :: "real \<Rightarrow> real \<Rightarrow> error + real" where
  "py_div a b = (if b = 0 then Inl ZeroDivisionError else Inr (a / b))"

text \<open>
  \<^verbatim>\<open>World.to_canvas\<close>: world \<open>(x, y)\<close> to canvas \<open>(X, Y)\<close>. The two divisions
  are evaluated in the order of the source, X first. The exception modelled is the
  division by zero; the \<^verbatim>\<open>OverflowError\<close> of dividing integers too large for a float
  is not, and the program passes no such argument.
\<close>

definition to_canvas :: "World \<Rightarrow> real \<Rightarrow> real \<Rightarrow> real \<Rightarrow> real \<Rightarrow> error + point" where
  "to_canvas self x y width height =
     (let W = width - 2 * margin self;
          H = height - 2 * margin self
      in case py_div (x - xmin self) (xmax self - xmin self) of
           Inl e \<Rightarrow> Inl e
         | Inr qx \<Rightarrow>
             (let X = margin self + qx * W
              in case py_div (ymax self - y) (ymax self - ymin self) of
                   Inl e \<Rightarrow> Inl e
                 | Inr qy \<Rightarrow>
                     (let Y = margin self + qy * H in Inr (X, Y))))"

text \<open>
  The body of the \<^verbatim>\<open>for i in range(npts)\<close> loop of \<^verbatim>\<open>spiral\<close>: the point
  for index \<open>i\<close>, or the exception of \<^verbatim>\<open>i / (npts-1)\<close>. The \<^verbatim>\<open>ValueError\<close>
  of \<^verbatim>\<open>math.cos\<close> and \<^verbatim>\<open>math.sin\<close> on an infinite angle is not modelled; the
  angles the program passes are bounded by a few turns.
\<close>

definition spiral_body ::
  "point \<Rightarrow> real \<Rightarrow> real \<Rightarrow> real \<Rightarrow> real \<Rightarrow> int \<Rightarrow> int \<Rightarrow> error + point" where
  "spiral_body center r_start r_end theta0 theta1 npts i =
     (case center of (cx, cy) \<Rightarrow>
        (case py_div (of_int i) (of_int (npts - 1)) of
           Inl e \<Rightarrow> Inl e
         | Inr t \<Rightarrow>
             (let th = theta0 + t * (theta1 - theta0);
                  r = r_start + t * (r_end - r_start);
                  x = cx + r * cos th;
                  y = cy + r * sin th
              in Inr (x, y))))"

text \<open>The loop itself: \<open>i\<close> runs over \<^verbatim>\<open>range(npts)\<close>, \<open>pts\<close> is appended to.\<close>

function spiral_loop ::
  "point \<Rightarrow> real \<Rightarrow> real \<Rightarrow> real \<Rightarrow> real \<Rightarrow> int \<Rightarrow> int \<Rightarrow> point list \<Rightarrow> error + point list" where
  "spiral_loop center r_start r_end theta0 theta1 npts i pts =
     (if i < npts then
        (case spiral_body center r_start r_end theta0 theta1 npts i of
           Inl e \<Rightarrow> Inl e
         | Inr p \<Rightarrow> spiral_loop center r_start r_end theta0 theta1 npts (i + 1) (pts @ [p]))
      else Inr pts)"
  by pat_completeness auto
termination
  by (relation "measure (\<lambda>(center, r_start, r_end, theta0, theta1, npts, i, pts). nat (npts - i))") auto

declare spiral_loop.simps [simp del]

text \<open>
  \<^verbatim>\<open>spiral(center, r_start, r_end, turns, ccw, npts, start_angle)\<close>; the source's
  defaults are \<open>turns = 3.0\<close>, \<open>ccw = True\<close>, \<open>npts = 500\<close>, \<open>start_angle = 0.0\<close>.
\<close>

definition spiral ::
  "point \<Rightarrow> real \<Rightarrow> real \<Rightarrow> real \<Rightarrow> bool \<Rightarrow> int \<Rightarrow> real \<Rightarrow> error + point list" where
  "spiral center r_start r_end turns ccw npts start_angle =
     (let theta0 = start_angle;
          theta1 = start_angle + (if ccw then 2 * pi * turns else - 2 * pi * turns)
      in spiral_loop center r_start r_end theta0 theta1 npts 0 [])"

text \<open>The loop body of \<^verbatim>\<open>arc\<close>, read in the same way.\<close>

definition arc_body :: "point \<Rightarrow> real \<Rightarrow> real \<Rightarrow> real \<Rightarrow> int \<Rightarrow> int \<Rightarrow> error + point" where
  "arc_body center radius th0 th1 npts i =
     (case center of (cx, cy) \<Rightarrow>
        (case py_div (of_int i) (of_int (npts - 1)) of
           Inl e \<Rightarrow> Inl e
         | Inr t \<Rightarrow>
             (let th = th0 + t * (th1 - th0);
                  x = cx + radius * cos th;
                  y = cy + radius * sin th
              in Inr (x, y))))"

function arc_loop ::
  "point \<Rightarrow> real \<Rightarrow> real \<Rightarrow> real \<Rightarrow> int \<Rightarrow> int \<Rightarrow> point list \<Rightarrow> error + point list" where
  "arc_loop center radius th0 th1 npts i pts =
     (if i < npts then
        (case arc_body center radius th0 th1 npts i of
           Inl e \<Rightarrow> Inl e
         | Inr p \<Rightarrow> arc_loop center radius th0 th1 npts (i + 1) (pts @ [p]))
      else Inr pts)"
  by pat_completeness auto
termination
  by (relation "measure (\<lambda>(center, radius, th0, th1, npts, i, pts). nat (npts - i))") auto

declare arc_loop.simps [simp del]

text \<open>
  \<^verbatim>\<open>arc(center, radius, angle_start, angle_end, ccw, npts)\<close>; the defaults are
  \<open>ccw = True\<close> and \<open>npts = 180\<close>.
\<close>

definition arc :: "point \<Rightarrow> real \<Rightarrow> real \<Rightarrow> real \<Rightarrow> bool \<Rightarrow> int \<Rightarrow> error + point list" where
  "arc center radius angle_start angle_end ccw npts =
     (let th0 = angle_start;
          th1 = (if ccw then angle_end else angle_start - (angle_end - angle_start))
      in arc_loop center radius th0 th1 npts 0 [])"

subsection \<open>Sequencing of fallible steps\<close>

text \<open>Run \<open>f\<close> on the value of \<open>m\<close>, or pass the exception of \<open>m\<close> on.\<close>

definition and_then :: "error + 'a \<Rightarrow> ('a \<Rightarrow> error + 'b) \<Rightarrow> error + 'b" where
  "and_then m f = (case m of Inl e \<Rightarrow> Inl e | Inr v \<Rightarrow> f v)"

subsection \<open>Text content\<close>

text \<open>The non-ASCII characters of the source's string literals, as UTF-8.\<close>

definition u_minus :: string where \<comment> \<open>U+2212 MINUS SIGN\<close>
  "u_minus = [CHR 0xE2, CHR 0x88, CHR 0x92]"

definition u_mu :: string where \<comment> \<open>U+03BC GREEK SMALL LETTER MU\<close>
  "u_mu = [CHR 0xCE, CHR 0xBC]"

definition u_gamma :: string where \<comment> \<open>U+03B3 GREEK SMALL LETTER GAMMA\<close>
  "u_gamma = [CHR 0xCE, CHR 0xB3]"

definition u_sup_plus :: string where \<comment> \<open>U+207A SUPERSCRIPT PLUS SIGN\<close>
  "u_sup_plus = [CHR 0xE2, CHR 0x81, CHR 0xBA]"

definition u_sup_minus :: string where \<comment> \<open>U+207B SUPERSCRIPT MINUS\<close>
  "u_sup_minus = [CHR 0xE2, CHR 0x81, CHR 0xBB]"

definition u_rightarrow :: string where \<comment> \<open>U+2192 RIGHTWARDS ARROW\<close>
  "u_rightarrow = [CHR 0xE2, CHR 0x86, CHR 0x92]"

definition u_Rightarrow :: string where \<comment> \<open>U+21D2 RIGHTWARDS DOUBLE ARROW\<close>
  "u_Rightarrow = [CHR 0xE2, CHR 0x87, CHR 0x92]"

definition u_uparrow :: string where \<comment> \<open>U+2191 UPWARDS ARROW\<close>
  "u_uparrow = [CHR 0xE2, CHR 0x86, CHR 0x91]"

definition u_otimes :: string where \<comment> \<open>U+2297 CIRCLED TIMES\<close>
  "u_otimes = [CHR 0xE2, CHR 0x8A, CHR 0x97]"

definition u_check :: string where \<comment> \<open>U+2713 CHECK MARK\<close>
  "u_check = [CHR 0xE2, CHR 0x9C, CHR 0x93]"

definition u_cross :: string where \<comment> \<open>U+2717 BALLOT X\<close>
  "u_cross = [CHR 0xE2, CHR 0x9C, CHR 0x97]"

definition nl :: string where \<comment> \<open>the newline character\<close>
  "nl = [CHR 0x0A]"

definition CHOICES :: "string list" where
  "CHOICES =
     [''electron (e'' @ u_minus @ '')'',
      ''positron (e+)'',
      ''muon ('' @ u_mu @ u_minus @ '')'',
      ''muon ('' @ u_mu @ ''+)'',
      ''photon ('' @ u_gamma @ '') '' @ u_rightarrow @ '' e'' @ u_sup_plus @ ''e'' @ u_sup_minus @ '' pair'',
      ''proton (p)'',
      ''neutron (n) (no visible primary track)'']"

definition TRACK_COLOR :: string where
  "TRACK_COLOR = ''crimson''"

subsection \<open>The canvas\<close>

text \<open>
  The Tk canvas is a passive display list: its configured size and the items created on
  it, in order. Of an item the coordinates are kept, with the line width and fill colour
  of a line, the fill of a polygon or oval and the string of a text; fonts, anchors,
  outline and spline options do not enter any computation of the program.
\<close>

datatype canvas_item =
    Line "real list" int string
  | Polygon "real list" string
  | Oval "real list" string
  | Text "real list" string

record canvas =
  cv_width :: int
  cv_height :: int
  cv_items :: "canvas_item list"

definition create_line :: "canvas \<Rightarrow> real list \<Rightarrow> int \<Rightarrow> string \<Rightarrow> canvas" where
  "create_line cv xy width fill = cv\<lparr>cv_items := cv_items cv @ [Line xy width fill]\<rparr>"

definition create_polygon :: "canvas \<Rightarrow> real list \<Rightarrow> string \<Rightarrow> canvas" where
  "create_polygon cv xy fill = cv\<lparr>cv_items := cv_items cv @ [Polygon xy fill]\<rparr>"

definition create_oval :: "canvas \<Rightarrow> real list \<Rightarrow> string \<Rightarrow> canvas" where
  "create_oval cv xy fill = cv\<lparr>cv_items := cv_items cv @ [Oval xy fill]\<rparr>"

definition create_text :: "canvas \<Rightarrow> real list \<Rightarrow> string \<Rightarrow> canvas" where
  "create_text cv xy txt = cv\<lparr>cv_items := cv_items cv @ [Text xy txt]\<rparr>"

definition delete_all :: "canvas \<Rightarrow> canvas" where
  "delete_all cv = cv\<lparr>cv_items := []\<rparr>"

subsection \<open>Drawing\<close>

definition draw_axes :: "canvas \<Rightarrow> World \<Rightarrow> error + canvas" where
  "draw_axes cv world =
     (let w = of_int (cv_width cv); h = of_int (cv_height cv)
      in and_then (to_canvas world (-9) (-9) w h) (\<lambda>(x0, y0).
         and_then (to_canvas world (-9) 9 w h) (\<lambda>(x1, y1).
           (let c1 = create_line cv [x0, y0, x1, y1] 1 ''black'';
                c2 = create_polygon c1 [x1, y1, x1 - 6, y1 + 12, x1 + 6, y1 + 12] ''black'';
                c3 = create_text c2 [x1 - 15, y1 - 15] ''y''
            in and_then (to_canvas world (-9) (-9) w h) (\<lambda>(x2, y2).
               and_then (to_canvas world 9 (-9) w h) (\<lambda>(x3, y3).
                 (let c4 = create_line c3 [x2, y2, x3, y3] 1 ''black'';
                      c5 = create_polygon c4 [x3, y3, x3 - 12, y3 - 6, x3 - 12, y3 + 6] ''black''
                  in Inr (create_text c5 [x3 - 10, y3 + 15] ''x''))))))))"

text \<open>The inner loop of \<^verbatim>\<open>draw_Bfield\<close>, over \<open>xs\<close> for one \<open>y\<close>.\<close>

fun Bfield_row :: "canvas \<Rightarrow> World \<Rightarrow> real \<Rightarrow> real list \<Rightarrow> error + canvas" where
  "Bfield_row cv world y [] = Inr cv"
| "Bfield_row cv world y (x # xs) =
     and_then (to_canvas world x y (of_int (cv_width cv)) (of_int (cv_height cv))) (\<lambda>(cx, cy).
       (let r = 10;
            c1 = create_oval cv [cx - r, cy - r, cx + r, cy + r] [];
            c2 = create_line c1 [cx - r * 0.7, cy - r * 0.7, cx + r * 0.7, cy + r * 0.7] 1 ''black'';
            c3 = create_line c2 [cx - r * 0.7, cy + r * 0.7, cx + r * 0.7, cy - r * 0.7] 1 ''black''
        in Bfield_row c3 world y xs))"

text \<open>The outer loop, over \<open>ys\<close>.\<close>

fun Bfield_grid :: "canvas \<Rightarrow> World \<Rightarrow> real list \<Rightarrow> real list \<Rightarrow> error + canvas" where
  "Bfield_grid cv world xs [] = Inr cv"
| "Bfield_grid cv world xs (y # ys) =
     and_then (Bfield_row cv world y xs) (\<lambda>c. Bfield_grid c world xs ys)"

definition draw_Bfield :: "canvas \<Rightarrow> World \<Rightarrow> error + canvas" where
  "draw_Bfield cv world =
     (let xs = [-6, -2, 2, 6];
          ys = [6, 3, 0, -3, -6]
      in and_then (Bfield_grid cv world xs ys) (\<lambda>c.
           (let c1 = create_text c [10, 10] ''B field:'';
                c2 = create_text c1 [62, 3] u_otimes
            in Inr (create_text c2 [80, 10] ''into page''))))"

text \<open>The loop of \<^verbatim>\<open>polyline\<close>: \<open>xy\<close> is extended by the image of each point.\<close>

fun polyline_loop :: "World \<Rightarrow> real \<Rightarrow> real \<Rightarrow> point list \<Rightarrow> real list \<Rightarrow> error + real list" where
  "polyline_loop world w h [] xy = Inr xy"
| "polyline_loop world w h ((x, y) # pts) xy =
     and_then (to_canvas world x y w h) (\<lambda>(X, Y). polyline_loop world w h pts (xy @ [X, Y]))"

text \<open>
  \<^verbatim>\<open>polyline(canvas, pts, world, width)\<close>, with the default \<open>fill = TRACK_COLOR\<close>
  that every caller uses.
\<close>

definition polyline :: "canvas \<Rightarrow> point list \<Rightarrow> World \<Rightarrow> int \<Rightarrow> error + canvas" where
  "polyline cv pts world width =
     (let w = of_int (cv_width cv); h = of_int (cv_height cv)
      in and_then (polyline_loop world w h pts []) (\<lambda>xy.
           Inr (create_line cv xy width TRACK_COLOR)))"

subsection \<open>Scenarios\<close>

text \<open>
  A scenario is the dictionary built by \<^verbatim>\<open>dict(answer=, explain=, tags=, draw=)\<close>:
  always these four keys, of different types, hence a record. Its \<open>tags\<close> dictionary
  is read with \<^verbatim>\<open>tags.get(k)\<close> and \<^verbatim>\<open>tags[k]\<close>, so it is a map; a value is
  a string or Python's \<^verbatim>\<open>None\<close> (\<open>Some s\<close> or \<open>None\<close>).
\<close>

record scenario =
  answer :: string
  explain :: string
  tags :: "string \<rightharpoonup> string option"
  draw :: "canvas \<Rightarrow> World \<Rightarrow> error + canvas"

definition THIN :: int where
  "THIN = 2"

definition THICK :: int where
  "THICK = 5"

definition y0 :: real where \<comment> \<open>tracks start in midpage\<close>
  "y0 = 0.0"

definition draw_eplus :: "canvas \<Rightarrow> World \<Rightarrow> error + canvas" where
  "draw_eplus cv world =
     (let r_start = 3.0; r_end = 0.6;
          cx = - r_start; cy = y0
      in and_then (spiral (cx, cy) r_start r_end 3.2 True 500 0.0) (\<lambda>pts.
           polyline cv pts world THIN))"

definition draw_eminus :: "canvas \<Rightarrow> World \<Rightarrow> error + canvas" where
  "draw_eminus cv world =
     (let r_start = 3.0; r_end = 0.6;
          cx = r_start; cy = y0
      in and_then (spiral (cx, cy) r_start r_end 3.2 False 500 pi) (\<lambda>pts.
           polyline cv pts world THIN))"

definition draw_muminus :: "canvas \<Rightarrow> World \<Rightarrow> error + canvas" where
  "draw_muminus cv world =
     (let r = 20.0; cx = r; cy = y0
      in and_then (arc (cx, cy) r pi (pi - 0.5) False 160) (\<lambda>pts.
           polyline cv pts world THIN))"

definition draw_muplus :: "canvas \<Rightarrow> World \<Rightarrow> error + canvas" where
  "draw_muplus cv world =
     (let r = 20.0; cx = - r; cy = y0
      in and_then (arc (cx, cy) r 0.0 0.5 True 160) (\<lambda>pts.
           polyline cv pts world THIN))"

definition draw_proton :: "canvas \<Rightarrow> World \<Rightarrow> error + canvas" where
  "draw_proton cv world =
     (let r = 20.0; cx = - r; cy = y0
      in and_then (arc (cx, cy) r 0.0 0.5 True 160) (\<lambda>pts.
           polyline cv pts world THICK))"

definition draw_gamma_pair :: "canvas \<Rightarrow> World \<Rightarrow> error + canvas" where
  "draw_gamma_pair cv world =
     (let vx = 0.0; vy = 0.0;
          r = 6.0;
          cx1 = vx - r; cy1 = vy
      in and_then (arc (cx1, cy1) r 0.0 0.9 True 120) (\<lambda>pts1.
         and_then (polyline cv pts1 world THIN) (\<lambda>c1.
           (let cx2 = vx + r; cy2 = vy
            in and_then (arc (cx2, cy2) r pi (pi - 0.9) False 120) (\<lambda>pts2.
               and_then (polyline c1 pts2 world THIN) (\<lambda>c2.
                 (let w = of_int (cv_width c2); h = of_int (cv_height c2)
                  in and_then (to_canvas world vx vy w h) (\<lambda>(X, Y).
                       Inr (create_oval c2 [X - 3, Y - 3, X + 3, Y + 3] ''black'')))))))))"

text \<open>The neutron draws nothing for the track itself.\<close>

definition draw_neutron :: "canvas \<Rightarrow> World \<Rightarrow> error + canvas" where
  "draw_neutron cv world = Inr cv"

text \<open>The seven scenarios, in the order in which the source appends them.\<close>

definition make_scenarios :: "scenario list" where
  "make_scenarios =
     [\<lparr>answer = ''positron (e+)'',
       explain = ''Left-curving tight spiral '' @ u_Rightarrow @ '' low-p, positive, light ''
                   @ u_rightarrow @ '' e'' @ u_sup_plus @ ''.'',
       tags = [''sign'' \<mapsto> Some ''+'', ''curv'' \<mapsto> Some ''tight'', ''ion'' \<mapsto> Some ''faint'',
               ''special'' \<mapsto> None],
       draw = draw_eplus\<rparr>,
      \<lparr>answer = ''electron (e'' @ u_minus @ '')'',
       explain = ''Right-curving tight spiral '' @ u_Rightarrow @ '' low-p, negative, very light ''
                   @ u_rightarrow @ '' e'' @ u_sup_minus @ ''.'',
       tags = [''sign'' \<mapsto> Some ''-'', ''curv'' \<mapsto> Some ''tight'', ''ion'' \<mapsto> Some ''faint'',
               ''special'' \<mapsto> None],
       draw = draw_eminus\<rparr>,
      \<lparr>answer = ''muon ('' @ u_mu @ u_minus @ '')'',
       explain = ''Long gentle right arc; thin ionization '' @ u_rightarrow
                   @ '' high-p negative MIP '' @ u_rightarrow @ '' '' @ u_mu @ u_sup_minus @ ''.'',
       tags = [''sign'' \<mapsto> Some ''-'', ''curv'' \<mapsto> Some ''gentle'', ''ion'' \<mapsto> Some ''thin'',
               ''special'' \<mapsto> None],
       draw = draw_muminus\<rparr>,
      \<lparr>answer = ''muon ('' @ u_mu @ ''+)'',
       explain = ''Long gentle left arc; thin ionization '' @ u_rightarrow
                   @ '' high-p positive MIP '' @ u_rightarrow @ '' '' @ u_mu @ u_sup_plus @ ''.'',
       tags = [''sign'' \<mapsto> Some ''+'', ''curv'' \<mapsto> Some ''gentle'', ''ion'' \<mapsto> Some ''thin'',
               ''special'' \<mapsto> None],
       draw = draw_muplus\<rparr>,
      \<lparr>answer = ''proton (p)'',
       explain = ''Left gentle arc with heavy dE/dx (thick) '' @ u_rightarrow
                   @ '' slow heavy positive '' @ u_rightarrow @ '' proton.'',
       tags = [''sign'' \<mapsto> Some ''+'', ''curv'' \<mapsto> Some ''gentle'', ''ion'' \<mapsto> Some ''thick'',
               ''special'' \<mapsto> None],
       draw = draw_proton\<rparr>,
      \<lparr>answer = ''photon ('' @ u_gamma @ '') '' @ u_rightarrow @ '' e'' @ u_sup_plus @ ''e''
                  @ u_sup_minus @ '' pair'',
       explain = ''No incoming track; displaced V with opposite-curving faint arms ''
                   @ u_rightarrow @ '' '' @ u_gamma @ '' conversion to e'' @ u_sup_plus @ ''e''
                   @ u_sup_minus @ ''.'',
       tags = [''sign'' \<mapsto> Some ''0'', ''curv'' \<mapsto> Some ''pair'', ''ion'' \<mapsto> Some ''faint'',
               ''special'' \<mapsto> Some ''conversion''],
       draw = draw_gamma_pair\<rparr>,
      \<lparr>answer = ''neutron (n) (no visible primary track)'',
       explain = ''No charged track; neutral particle. (Sometimes a short recoil stub.)'',
       tags = [''sign'' \<mapsto> Some ''0'', ''curv'' \<mapsto> Some ''none'', ''ion'' \<mapsto> Some ''none'',
               ''special'' \<mapsto> None],
       draw = draw_neutron\<rparr>]"

subsection \<open>Python helpers used by the game page\<close>

text \<open>\<^verbatim>\<open>d.get(k)\<close>: the value, or \<^verbatim>\<open>None\<close> for a missing key.\<close>

definition dict_get :: "('k \<rightharpoonup> 'v option) \<Rightarrow> 'k \<Rightarrow> 'v option" where
  "dict_get d k = (case d k of None \<Rightarrow> None | Some v \<Rightarrow> v)"

text \<open>\<^verbatim>\<open>d[k]\<close>: raises on a missing key.\<close>

definition getitem :: "('k \<rightharpoonup> 'v) \<Rightarrow> 'k \<Rightarrow> error + 'v" where
  "getitem d k = (case d k of None \<Rightarrow> Inl KeyError | Some v \<Rightarrow> Inr v)"

text \<open>How an f-string formats a tag value.\<close>

definition py_str :: "string option \<Rightarrow> string" where
  "py_str v = (case v of None \<Rightarrow> ''None'' | Some s \<Rightarrow> s)"

text \<open>\<^verbatim>\<open>sep.join(xs)\<close>.\<close>

fun join :: "string \<Rightarrow> string list \<Rightarrow> string" where
  "join sep [] = []"
| "join sep [x] = x"
| "join sep (x # y # ys) = x @ sep @ join sep (y # ys)"

text \<open>\<^verbatim>\<open>str(n)\<close> for an integer, in decimal.\<close>

fun str_nat :: "nat \<Rightarrow> string" where
  "str_nat n =
     (if n < 10 then [''0123456789'' ! n]
      else str_nat (n div 10) @ [''0123456789'' ! (n mod 10)])"

declare str_nat.simps [simp del]

definition str_int :: "int \<Rightarrow> string" where
  "str_int i = (if i < 0 then ''-'' @ str_nat (nat (- i)) else str_nat (nat i))"

text \<open>
  \<^verbatim>\<open>random.choice(seq)\<close>: an element of a non-empty sequence. The number \<open>r\<close> is
  what the random source delivers for this call; every index of the sequence arises from
  some \<open>r\<close>.
\<close>

definition random_choice :: "nat \<Rightarrow> 'a list \<Rightarrow> error + 'a" where
  "random_choice r seq =
     (if seq = [] then Inl IndexError else Inr (seq ! (r mod length seq)))"

subsection \<open>The game page\<close>

text \<open>
  The fields of \<^verbatim>\<open>GamePage\<close> that its methods read or write. \<open>choice_var\<close> is the
  value of the Tk string variable behind the radio buttons, \<open>msg\<close> the content of the
  feedback text widget, \<open>score_lbl\<close> the text of the score label, and \<open>shown\<close> the
  message boxes shown so far (title and message).
\<close>

record GamePage =
  world :: World
  scenarios :: "scenario list"
  current :: "scenario option"
  rounds :: int
  score :: int
  answered :: bool
  canvas :: canvas
  choice_var :: string
  msg :: string
  score_lbl :: string
  shown :: "(string \<times> string) list"

definition msg_set :: "GamePage \<Rightarrow> string \<Rightarrow> GamePage" where
  "msg_set self txt = self\<lparr>msg := txt\<rparr>"

definition update_score :: "GamePage \<Rightarrow> GamePage" where
  "update_score self =
     self\<lparr>score_lbl := ''Score: '' @ str_int (score self) @ ''/'' @ str_int (rounds self)\<rparr>"

definition showinfo :: "GamePage \<Rightarrow> string \<Rightarrow> string \<Rightarrow> GamePage" where
  "showinfo self title message = self\<lparr>shown := shown self @ [(title, message)]\<rparr>"

definition draw_background :: "GamePage \<Rightarrow> error + GamePage" where
  "draw_background self =
     (let c0 = delete_all (canvas self)
      in and_then (draw_Bfield c0 (world self)) (\<lambda>c1.
         and_then (draw_axes c1 (world self)) (\<lambda>c2.
           (let w = of_int (cv_width c2); h = of_int (cv_height c2)
            in and_then (to_canvas (world self) 0.0 (-0.5) w h) (\<lambda>(x0, y0).
               and_then (to_canvas (world self) 0.0 0.5 w h) (\<lambda>(x1, y1).
                 (let c3 = create_line c2 [x0, y0, x1, y1] 3 ''black''
                  in Inr (self\<lparr>canvas := create_text c3 [x1 + 8, y1 - 10] u_uparrow\<rparr>))))))))"

text \<open>\<^verbatim>\<open>GamePage.new_round\<close>; \<open>r\<close> is the random draw of this call.\<close>

definition new_round :: "nat \<Rightarrow> GamePage \<Rightarrow> error + GamePage" where
  "new_round r self =
     (let s1 = self\<lparr>answered := False\<rparr>;
          s2 = s1\<lparr>choice_var := []\<rparr>;
          s3 = msg_set s2
                 ''Pick the particle based on curvature (sign), radius (momentum), and line width (dE/dx).''
      in and_then (draw_background s3) (\<lambda>s4.
         and_then (random_choice r (scenarios s4)) (\<lambda>cur.
           (let s5 = s4\<lparr>current := Some cur\<rparr>
            in and_then (draw cur (canvas s5) (world s5)) (\<lambda>c.
                 Inr (s5\<lparr>canvas := c\<rparr>))))))"

text \<open>
  The clue list that \<^verbatim>\<open>on_submit\<close> builds from the tags. Each \<^verbatim>\<open>tags[k]\<close> is
  looked up once here; the source reads the same unchanged dictionary again.
\<close>

definition tag_bits_of :: "(string \<rightharpoonup> string option) \<Rightarrow> error + string list" where
  "tag_bits_of tgs =
     (if dict_get tgs ''special'' = Some ''conversion''
      then Inr [''conversion V with opposite curvature'']
      else and_then (getitem tgs ''sign'') (\<lambda>sgn.
             (let bits1 =
                    (if sgn = Some ''+'' \<or> sgn = Some ''-''
                     then [''turns '' @ (if sgn = Some ''+'' then ''left (+)''
                                         else ''right ('' @ u_minus @ '')'')]
                     else if sgn = Some ''0'' then [''neutral (no primary)'']
                     else [])
              in and_then (getitem tgs ''curv'') (\<lambda>curv.
                   (let bits2 = bits1 @ [py_str curv @ '' curvature'']
                    in and_then (getitem tgs ''ion'') (\<lambda>ion.
                         (if ion \<noteq> Some ''none''
                          then Inr (bits2 @ [py_str ion @ '' ionization''])
                          else Inr bits2)))))))"

text \<open>
  \<^verbatim>\<open>GamePage.on_submit\<close>. Subscripting \<^verbatim>\<open>self.current\<close> while it is
  \<^verbatim>\<open>None\<close> raises \<^verbatim>\<open>TypeError\<close>.
\<close>

definition on_submit :: "GamePage \<Rightarrow> error + GamePage" where
  "on_submit self =
     (if answered self then Inr self
      else
        (let sel = choice_var self
         in if sel = [] then Inr (showinfo self ''Choose one'' ''Please select an answer.'')
            else
              (let s1 = self\<lparr>rounds := rounds self + 1\<rparr>
               in case current s1 of
                    None \<Rightarrow> Inl TypeError
                  | Some cur \<Rightarrow>
                      (let correct = (sel = answer cur);
                           s2 = (if correct then s1\<lparr>score := score s1 + 1\<rparr> else s1);
                           s3 = s2\<lparr>answered := True\<rparr>;
                           verdict = (if correct then u_check @ '' Correct!''
                                      else u_cross @ '' Not quite.'')
                       in and_then (tag_bits_of (tags cur)) (\<lambda>tag_bits.
                            (let txt = ''Answer: '' @ answer cur @ nl @ nl @ verdict @ nl @ nl
                                         @ ''Reasoning: '' @ explain cur @ nl @ nl
                                         @ ''Clues: '' @ join '', '' tag_bits
                             in Inr (update_score (msg_set s3 txt))))))))"

definition on_next :: "nat \<Rightarrow> GamePage \<Rightarrow> error + GamePage" where
  "on_next r self = new_round r self"

text \<open>
  \<^verbatim>\<open>GamePage.__init__\<close>: the fields are set, the widgets are built (a 720 by 680
  canvas, an empty selection, an empty message, the label \<^verbatim>\<open>Score: 0/0\<close>), and the
  first round is started.
\<close>

definition GamePage_init :: "nat \<Rightarrow> error + GamePage" where
  "GamePage_init r =
     new_round r
       \<lparr>world = World_init,
        scenarios = make_scenarios,
        current = None,
        rounds = 0,
        score = 0,
        answered = False,
        canvas = \<lparr>cv_width = 720, cv_height = 680, cv_items = []\<rparr>,
        choice_var = [],
        msg = [],
        score_lbl = ''Score: 0/0'',
        shown = []\<rparr>"

subsection \<open>Calls on an open game page\<close>

text \<open>
  What can happen to a game page after its construction: the user picks a radio button
  (or a test sets the selection), presses Submit or Next, or \<^verbatim>\<open>new_round\<close> is
  called directly. A run is a list of such calls. It ends at the first exception; the
  properties below show that none is raised on a constructed page.
\<close>

datatype call = NewRound nat | Select string | Submit | Next nat

fun step :: "GamePage \<Rightarrow> call \<Rightarrow> error + GamePage" where
  "step s (NewRound r) = new_round r s"
| "step s (Select c) = Inr (s\<lparr>choice_var := c\<rparr>)"
| "step s Submit = on_submit s"
| "step s (Next r) = on_next r s"

fun run :: "GamePage \<Rightarrow> call list \<Rightarrow> error + GamePage" where
  "run s [] = Inr s"
| "run s (c # cs) = and_then (step s c) (\<lambda>s'. run s' cs)"

text \<open>
  What holds of a game page from the end of its construction on: the world and the
  catalog are the ones set by \<^verbatim>\<open>__init__\<close>, the current scenario is an entry of
  the catalog, and the counters are ordered.
\<close>

definition page_inv :: "GamePage \<Rightarrow> bool" where
  "page_inv s =
     (world s = World_init \<and> scenarios s = make_scenarios
      \<and> (\<exists>cur. current s = Some cur \<and> cur \<in> set make_scenarios)
      \<and> 0 \<le> score s \<and> score s \<le> rounds s)"

text \<open>
  A page in the middle of its first round: the proton scenario has been selected and
  the user has picked the radio button \<^verbatim>\<open>proton (p)\<close>.
\<close>

definition proton_round :: GamePage where
  "proton_round =
     \<lparr>world = World_init,
      scenarios = make_scenarios,
      current = Some (make_scenarios ! 4),
      rounds = 0,
      score = 0,
      answered = False,
      canvas = \<lparr>cv_width = 720, cv_height = 680, cv_items = []\<rparr>,
      choice_var = ''proton (p)'',
      msg = ''Pick the particle based on curvature (sign), radius (momentum), and line width (dE/dx).'',
      score_lbl = ''Score: 0/0'',
      shown = []\<rparr>"

section \<open>Properties\<close>

lemma and_then_Inr [simp]: "and_then (Inr v) f = f v"
  by (simp add: and_then_def)

lemma and_then_Inl [simp]: "and_then (Inl e) f = Inl e"
  by (simp add: and_then_def)

subsection \<open>Which geometry calls return\<close>

text \<open>
  With the default world neither division of \<open>to_canvas\<close> is by zero. A curve generator
  with a sample count other than 1 runs its loop to the end and returns as many points as
  the count says (none for a count below 1); a count of 1 makes \<^verbatim>\<open>i / (npts-1)\<close>
  raise \<^verbatim>\<open>ZeroDivisionError\<close> in the first iteration.
\<close>

lemma to_canvas_World_init: "\<exists>X Y. to_canvas World_init x y w h = Inr (X, Y)"
  by (simp add: to_canvas_def py_div_def World_init_def)

lemma spiral_body_returns:
  "npts \<noteq> 1 \<Longrightarrow> \<exists>p. spiral_body center r_start r_end theta0 theta1 npts i = Inr p"
  by (simp add: spiral_body_def py_div_def Let_def split: prod.splits)

lemma spiral_body_one:
  "spiral_body center r_start r_end theta0 theta1 1 i = Inl ZeroDivisionError"
  by (simp add: spiral_body_def py_div_def split: prod.splits)

lemma spiral_loop_returns:
  assumes "npts \<noteq> 1"
  shows "\<exists>qs. spiral_loop center r_start r_end theta0 theta1 npts i pts = Inr qs
              \<and> length qs = length pts + nat (npts - i)"
proof (induction "nat (npts - i)" arbitrary: i pts)
  case 0
  then have "\<not> i < npts" by simp
  then show ?case by (subst spiral_loop.simps) simp
next
  case (Suc n)
  then have lt: "i < npts" and n: "n = nat (npts - (i + 1))" by linarith+
  obtain p where b: "spiral_body center r_start r_end theta0 theta1 npts i = Inr p"
    using spiral_body_returns[OF assms] by blast
  obtain qs where "spiral_loop center r_start r_end theta0 theta1 npts (i + 1) (pts @ [p]) = Inr qs"
    and "length qs = length (pts @ [p]) + nat (npts - (i + 1))"
    using Suc.hyps(1)[OF n] by blast
  then show ?case
    using lt by (subst spiral_loop.simps) (simp add: b nat_diff_distrib)
qed

lemma spiral_returns:
  "npts \<noteq> 1 \<Longrightarrow> \<exists>pts. spiral center r_start r_end turns ccw npts start_angle = Inr pts
                            \<and> length pts = nat npts"
  using spiral_loop_returns[of npts center r_start r_end _ _ 0 "[]"]
  by (simp add: spiral_def Let_def)

lemma spiral_one:
  "spiral center r_start r_end turns ccw 1 start_angle = Inl ZeroDivisionError"
  unfolding spiral_def Let_def
  by (subst spiral_loop.simps) (simp add: spiral_body_one)

lemma arc_body_returns:
  "npts \<noteq> 1 \<Longrightarrow> \<exists>p. arc_body center radius th0 th1 npts i = Inr p"
  by (simp add: arc_body_def py_div_def Let_def split: prod.splits)

lemma arc_body_one: "arc_body center radius th0 th1 1 i = Inl ZeroDivisionError"
  by (simp add: arc_body_def py_div_def split: prod.splits)

lemma arc_loop_returns:
  assumes "npts \<noteq> 1"
  shows "\<exists>qs. arc_loop center radius th0 th1 npts i pts = Inr qs
              \<and> length qs = length pts + nat (npts - i)"
proof (induction "nat (npts - i)" arbitrary: i pts)
  case 0
  then have "\<not> i < npts" by simp
  then show ?case by (subst arc_loop.simps) simp
next
  case (Suc n)
  then have lt: "i < npts" and n: "n = nat (npts - (i + 1))" by linarith+
  obtain p where b: "arc_body center radius th0 th1 npts i = Inr p"
    using arc_body_returns[OF assms] by blast
  obtain qs where "arc_loop center radius th0 th1 npts (i + 1) (pts @ [p]) = Inr qs"
    and "length qs = length (pts @ [p]) + nat (npts - (i + 1))"
    using Suc.hyps(1)[OF n] by blast
  then show ?case
    using lt by (subst arc_loop.simps) (simp add: b nat_diff_distrib)
qed

lemma arc_returns:
  "npts \<noteq> 1 \<Longrightarrow> \<exists>pts. arc center radius angle_start angle_end ccw npts = Inr pts
                         \<and> length pts = nat npts"
  using arc_loop_returns[of npts center radius _ _ 0 "[]"]
  by (simp add: arc_def Let_def)

lemma arc_one: "arc center radius angle_start angle_end ccw 1 = Inl ZeroDivisionError"
  unfolding arc_def Let_def
  by (subst arc_loop.simps) (simp add: arc_body_one)

subsection \<open>The scenario catalog\<close>

lemmas u_defs = u_minus_def u_mu_def u_gamma_def u_sup_plus_def u_sup_minus_def
  u_rightarrow_def u_Rightarrow_def u_check_def u_cross_def nl_def

text \<open>
  C4. The catalog construction returns exactly 7 scenarios, their answer labels are
  pairwise distinct, and the set of the labels is the set of the seven \<open>CHOICES\<close> that
  the game page offers as radio buttons (themselves seven distinct strings).
\<close>

theorem make_scenarios_catalog:
  "length make_scenarios = 7
   \<and> distinct (map answer make_scenarios)
   \<and> set (map answer make_scenarios) = set CHOICES
   \<and> length CHOICES = 7 \<and> distinct CHOICES"
proof -
  have len: "length make_scenarios = 7"
    by (simp add: make_scenarios_def)
  have dist: "distinct (map answer make_scenarios)"
    by (simp add: make_scenarios_def u_defs)
  have eq: "set (map answer make_scenarios) = set CHOICES"
    by (auto simp: make_scenarios_def CHOICES_def)
  have lenC: "length CHOICES = 7"
    by (simp add: CHOICES_def)
  have distC: "distinct CHOICES"
    by (simp add: CHOICES_def u_defs)
  show ?thesis
    using len dist eq lenC distC by (intro conjI)
qed


text \<open>
  C8. The draw routines of the muon (\<open>\<mu>+\<close>) and of the proton pass the same point
  sequence to \<open>polyline\<close>: the 160 points of the counterclockwise arc about \<open>(-20, 0)\<close>
  with radius 20 from angle 0 to 0.5. They differ in the width only, \<open>THIN = 2\<close> for the
  muon and \<open>THICK = 5\<close> for the proton: on any canvas and world both add one line with
  the same coordinates and colour and these two widths, or both raise the same exception
  (a world without extent).
\<close>

theorem proton_muplus_same_points:
  "\<exists>pts. arc (-20, 0) 20 0 0.5 True 160 = Inr pts
         \<and> length pts = 160
         \<and> draw_muplus cv wd = polyline cv pts wd THIN
         \<and> draw_proton cv wd = polyline cv pts wd THICK
         \<and> THIN = 2 \<and> THICK = 5
         \<and> ((\<exists>xy. draw_muplus cv wd = Inr (create_line cv xy 2 TRACK_COLOR)
                  \<and> draw_proton cv wd = Inr (create_line cv xy 5 TRACK_COLOR))
             \<or> (\<exists>e. draw_muplus cv wd = Inl e \<and> draw_proton cv wd = Inl e))
         \<and> draw (make_scenarios ! 3) = draw_muplus
         \<and> draw (make_scenarios ! 4) = draw_proton"
proof -
  obtain pts where a: "arc (-20, 0) 20 0 0.5 True 160 = Inr pts" and len: "length pts = nat 160"
    using arc_returns[of 160 "(-20, 0)" 20 0 "0.5" True] by auto
  have m: "draw_muplus cv wd = polyline cv pts wd THIN"
    using a by (simp add: draw_muplus_def y0_def)
  have p: "draw_proton cv wd = polyline cv pts wd THICK"
    using a by (simp add: draw_proton_def y0_def)
  have w: "THIN = 2" "THICK = 5"
    by (simp_all add: THIN_def THICK_def)
  have both: "(\<exists>xy. draw_muplus cv wd = Inr (create_line cv xy 2 TRACK_COLOR)
                  \<and> draw_proton cv wd = Inr (create_line cv xy 5 TRACK_COLOR))
             \<or> (\<exists>e. draw_muplus cv wd = Inl e \<and> draw_proton cv wd = Inl e)"
    unfolding m p w polyline_def Let_def
    by (cases "polyline_loop wd (real_of_int (cv_width cv)) (real_of_int (cv_height cv)) pts []") auto
  have cat: "draw (make_scenarios ! 3) = draw_muplus" "draw (make_scenarios ! 4) = draw_proton"
    by (simp_all add: make_scenarios_def)
  show ?thesis
    using a len m p w both cat by (intro exI[of _ pts]) simp
qed

text \<open>
  C9. The neutron scenario is the catalog entry with the answer
  \<^verbatim>\<open>neutron (n) (no visible primary track)\<close>. Its draw routine is \<open>draw_neutron\<close>, which
  returns the canvas as it received it, on every canvas and world: no item is added, so
  no track point is drawn.
\<close>

theorem draw_neutron_empty:
  assumes "sc \<in> set make_scenarios"
    and "answer sc = ''neutron (n) (no visible primary track)''"
  shows "draw sc = draw_neutron
         \<and> draw sc cv wd = Inr cv
         \<and> (\<exists>c. draw_neutron cv wd = Inr c \<and> cv_items c = cv_items cv)"
proof -
  have "sc \<in> set make_scenarios \<longrightarrow>
          answer sc = ''neutron (n) (no visible primary track)'' \<longrightarrow> draw sc = draw_neutron"
    unfolding make_scenarios_def set_simps insert_iff empty_iff
    by (intro impI; elim disjE; simp add: u_defs)
  then have d: "draw sc = draw_neutron"
    using assms by blast
  have n: "draw_neutron cv wd = Inr cv"
    by (simp add: draw_neutron_def)
  show ?thesis
    using d n by simp
qed

theorem draw_neutron_empty_witness:
  "make_scenarios ! 6 \<in> set make_scenarios
   \<and> answer (make_scenarios ! 6) = ''neutron (n) (no visible primary track)''
   \<and> draw (make_scenarios ! 6) \<lparr>cv_width = 720, cv_height = 680, cv_items = []\<rparr> World_init =
       Inr \<lparr>cv_width = 720, cv_height = 680, cv_items = []\<rparr>"
proof -
  have m: "make_scenarios ! 6 \<in> set make_scenarios"
    by (simp add: make_scenarios_def)
  have a: "answer (make_scenarios ! 6) = ''neutron (n) (no visible primary track)''"
    by (simp add: make_scenarios_def)
  from draw_neutron_empty[OF m a, of "\<lparr>cv_width = 720, cv_height = 680, cv_items = []\<rparr>" World_init]
  have "draw (make_scenarios ! 6) \<lparr>cv_width = 720, cv_height = 680, cv_items = []\<rparr> World_init =
          Inr \<lparr>cv_width = 720, cv_height = 680, cv_items = []\<rparr>"
    by blast
  then show ?thesis
    using m a by blast
qed

subsection \<open>Submitting an answer\<close>

lemma tag_bits_catalog:
  "cur \<in> set make_scenarios \<Longrightarrow> \<exists>bits. tag_bits_of (tags cur) = Inr bits"
  by (auto simp: make_scenarios_def tag_bits_of_def getitem_def dict_get_def)

text \<open>
  C1. A submit call made while \<open>answered\<close> is false and the selection is not empty, on a
  page whose current scenario is an entry of the catalog, returns; \<open>rounds\<close> is one more
  than before; \<open>score\<close> is one more exactly when the selection equals the answer label of
  the current scenario, and unchanged otherwise; \<open>answered\<close> is true; and the feedback
  text, composed of the answer, the verdict, the explanation and the clues, contains the
  explanation string of the scenario.
\<close>

theorem on_submit_scores:
  assumes "\<not> answered s" and "choice_var s \<noteq> []"
    and "current s = Some cur" and "cur \<in> set make_scenarios"
  shows "\<exists>s' bits. on_submit s = Inr s'
           \<and> rounds s' = rounds s + 1
           \<and> score s' = score s + (if choice_var s = answer cur then 1 else 0)
           \<and> answered s'
           \<and> current s' = current s
           \<and> tag_bits_of (tags cur) = Inr bits
           \<and> msg s' = ''Answer: '' @ answer cur @ nl @ nl
                        @ (if choice_var s = answer cur then u_check @ '' Correct!''
                           else u_cross @ '' Not quite.'')
                        @ nl @ nl @ ''Reasoning: '' @ explain cur @ nl @ nl
                        @ ''Clues: '' @ join '', '' bits
           \<and> (\<exists>pre post. msg s' = pre @ explain cur @ post)
           \<and> score_lbl s' = ''Score: '' @ str_int (score s') @ ''/'' @ str_int (rounds s')"
proof -
  obtain bits where b: "tag_bits_of (tags cur) = Inr bits"
    using tag_bits_catalog[OF assms(4)] by blast
  let ?v = "if choice_var s = answer cur then u_check @ '' Correct!'' else u_cross @ '' Not quite.''"
  let ?txt = "''Answer: '' @ answer cur @ nl @ nl @ ?v @ nl @ nl
                @ ''Reasoning: '' @ explain cur @ nl @ nl @ ''Clues: '' @ join '', '' bits"
  let ?s1 = "s\<lparr>rounds := rounds s + 1\<rparr>"
  let ?s2 = "if choice_var s = answer cur then ?s1\<lparr>score := score ?s1 + 1\<rparr> else ?s1"
  let ?s' = "update_score (msg_set (?s2\<lparr>answered := True\<rparr>) ?txt)"
  have run: "on_submit s = Inr ?s'"
    using assms(1-3) b by (simp add: on_submit_def Let_def)
  have cont: "\<exists>pre post. ?txt = pre @ explain cur @ post"
    by (intro exI[of _ "''Answer: '' @ answer cur @ nl @ nl @ ?v @ nl @ nl @ ''Reasoning: ''"]
              exI[of _ "nl @ nl @ ''Clues: '' @ join '', '' bits"]) simp
  have m: "msg ?s' = ?txt"
    by (simp add: update_score_def msg_set_def)
  show ?thesis
    apply (intro exI[of _ ?s'] exI[of _ bits])
    using run b cont m by (simp add: update_score_def msg_set_def)
qed


theorem on_submit_scores_witness:
  "\<not> answered proton_round \<and> choice_var proton_round \<noteq> []
   \<and> current proton_round = Some (make_scenarios ! 4)
   \<and> make_scenarios ! 4 \<in> set make_scenarios
   \<and> answer (make_scenarios ! 4) = ''proton (p)''
   \<and> (\<exists>s'. on_submit proton_round = Inr s'
          \<and> rounds s' = 1 \<and> score s' = 1 \<and> answered s'
          \<and> msg s' = ''Answer: proton (p)'' @ nl @ nl @ u_check @ '' Correct!'' @ nl @ nl
                       @ ''Reasoning: '' @ explain (make_scenarios ! 4) @ nl @ nl
                       @ ''Clues: turns left (+), gentle curvature, thick ionization''
          \<and> score_lbl s' = ''Score: 1/1'')"
proof -
  have a: "\<not> answered proton_round" and c: "choice_var proton_round \<noteq> []"
    and k: "current proton_round = Some (make_scenarios ! 4)"
    by (simp_all add: proton_round_def)
  have m: "make_scenarios ! 4 \<in> set make_scenarios"
    by (simp add: make_scenarios_def)
  have ans: "answer (make_scenarios ! 4) = ''proton (p)''"
    by (simp add: make_scenarios_def)
  have sel: "choice_var proton_round = answer (make_scenarios ! 4)"
    by (simp add: proton_round_def make_scenarios_def)
  have bits: "tag_bits_of (tags (make_scenarios ! 4)) =
                Inr [''turns left (+)'', ''gentle curvature'', ''thick ionization'']"
    by (simp add: make_scenarios_def tag_bits_of_def getitem_def dict_get_def py_str_def)
  have r0: "rounds proton_round = 0" "score proton_round = 0"
    by (simp_all add: proton_round_def)
  have one: "str_int 1 = ''1''"
    by (simp add: str_int_def str_nat.simps)
  from on_submit_scores[OF a c k m]
  show ?thesis
    using a c k m ans unfolding sel bits r0 by (auto simp: one)
qed

text \<open>
  The confusable case: the muon (\<open>\<mu>+\<close>) scenario is current and \<^verbatim>\<open>proton (p)\<close> is
  submitted. The round is counted, the score is not.
\<close>

lemma on_submit_wrong_answer_example:
  "\<exists>s'. on_submit (proton_round\<lparr>current := Some (make_scenarios ! 3)\<rparr>) = Inr s'
         \<and> answer (make_scenarios ! 3) = ''muon ('' @ u_mu @ ''+)''
         \<and> rounds s' = 1 \<and> score s' = 0 \<and> answered s'
         \<and> msg s' = ''Answer: muon ('' @ u_mu @ ''+)'' @ nl @ nl @ u_cross @ '' Not quite.'' @ nl @ nl
                      @ ''Reasoning: '' @ explain (make_scenarios ! 3) @ nl @ nl
                      @ ''Clues: turns left (+), gentle curvature, thin ionization''
         \<and> score_lbl s' = ''Score: 0/1''"
proof -
  have bits: "tag_bits_of (tags (make_scenarios ! 3)) =
                Inr [''turns left (+)'', ''gentle curvature'', ''thin ionization'']"
    by (simp add: make_scenarios_def tag_bits_of_def getitem_def dict_get_def py_str_def)
  have ans: "answer (make_scenarios ! 3) = ''muon ('' @ u_mu @ ''+)''"
    by (simp add: make_scenarios_def)
  have ne: "''proton (p)'' \<noteq> ''muon ('' @ u_mu @ ''+)''"
    by simp
  have str: "str_int 0 = ''0''" "str_int 1 = ''1''"
    by (simp_all add: str_int_def str_nat.simps)
  show ?thesis
    by (simp add: on_submit_def proton_round_def Let_def bits ans ne str
        update_score_def msg_set_def)
qed

text \<open>
  C3. A submit call changes nothing of the quiz state (\<open>score\<close>, \<open>rounds\<close>, \<open>answered\<close>,
  the current scenario) when \<open>answered\<close> is already true or the selection is empty. With
  \<open>answered\<close> true the page is returned as it is; otherwise, with an empty selection, the
  only change is the message box \<^verbatim>\<open>Choose one\<close> / \<^verbatim>\<open>Please select an answer.\<close>
  that is shown, and no counter or flag is touched.
\<close>

theorem on_submit_guard:
  assumes "answered s \<or> choice_var s = []"
  shows "\<exists>s'. on_submit s = Inr s'
           \<and> score s' = score s \<and> rounds s' = rounds s
           \<and> answered s' = answered s \<and> current s' = current s
           \<and> msg s' = msg s \<and> score_lbl s' = score_lbl s
           \<and> (if answered s then s' = s
               else s' = s\<lparr>shown := shown s @ [(''Choose one'', ''Please select an answer.'')]\<rparr>)"
  using assms by (auto simp: on_submit_def Let_def showinfo_def)

theorem on_submit_guard_witness:
  "(answered (proton_round\<lparr>choice_var := []\<rparr>) \<or> choice_var (proton_round\<lparr>choice_var := []\<rparr>) = [])
   \<and> on_submit (proton_round\<lparr>choice_var := []\<rparr>) =
       Inr (proton_round\<lparr>choice_var := [],
                         shown := [(''Choose one'', ''Please select an answer.'')]\<rparr>)
   \<and> on_submit (proton_round\<lparr>answered := True\<rparr>) = Inr (proton_round\<lparr>answered := True\<rparr>)"
  using on_submit_guard[of "proton_round\<lparr>choice_var := []\<rparr>"]
        on_submit_guard[of "proton_round\<lparr>answered := True\<rparr>"]
  by (auto simp: proton_round_def)

subsection \<open>A round never fails on an open page\<close>

text \<open>
  With the default world no division is by zero, and every catalog entry samples its curves
  with at least 120 points, so drawing the background and any scenario returns.
\<close>

lemma polyline_loop_returns: "\<exists>xy. polyline_loop World_init w h pts acc = Inr xy"
proof (induction pts arbitrary: acc)
  case Nil
  show ?case by simp
next
  case (Cons p pts)
  obtain x y where p: "p = (x, y)" by (cases p)
  obtain X Y where t: "to_canvas World_init x y w h = Inr (X, Y)"
    using to_canvas_World_init by blast
  show ?case
    using Cons.IH by (simp add: p t)
qed

lemma polyline_returns: "\<exists>c. polyline cv pts World_init width = Inr c"
  using polyline_loop_returns[of "of_int (cv_width cv)" "of_int (cv_height cv)" pts "[]"]
  by (auto simp: polyline_def Let_def)

lemma draw_eplus_returns: "\<exists>c. draw_eplus cv World_init = Inr c"
proof -
  obtain pts where "spiral (-3, 0) 3 0.6 3.2 True 500 0 = Inr pts"
    using spiral_returns[of 500 "(-3, 0)" 3 "0.6" "3.2" True 0] by auto
  then show ?thesis
    using polyline_returns[of cv pts THIN] by (simp add: draw_eplus_def y0_def)
qed

lemma draw_eminus_returns: "\<exists>c. draw_eminus cv World_init = Inr c"
proof -
  obtain pts where "spiral (3, 0) 3 0.6 3.2 False 500 pi = Inr pts"
    using spiral_returns[of 500 "(3, 0)" 3 "0.6" "3.2" False pi] by auto
  then show ?thesis
    using polyline_returns[of cv pts THIN] by (simp add: draw_eminus_def y0_def)
qed

lemma draw_muminus_returns: "\<exists>c. draw_muminus cv World_init = Inr c"
proof -
  obtain pts where "arc (20, 0) 20 pi (pi - 0.5) False 160 = Inr pts"
    using arc_returns[of 160 "(20, 0)" 20 pi "pi - 0.5" False] by auto
  then show ?thesis
    using polyline_returns[of cv pts THIN] by (simp add: draw_muminus_def y0_def)
qed

lemma draw_muplus_returns: "\<exists>c. draw_muplus cv World_init = Inr c"
proof -
  obtain pts where "arc (-20, 0) 20 0 0.5 True 160 = Inr pts"
    using arc_returns[of 160 "(-20, 0)" 20 0 "0.5" True] by auto
  then show ?thesis
    using polyline_returns[of cv pts THIN] by (simp add: draw_muplus_def y0_def)
qed

lemma draw_proton_returns: "\<exists>c. draw_proton cv World_init = Inr c"
proof -
  obtain pts where "arc (-20, 0) 20 0 0.5 True 160 = Inr pts"
    using arc_returns[of 160 "(-20, 0)" 20 0 "0.5" True] by auto
  then show ?thesis
    using polyline_returns[of cv pts THICK] by (simp add: draw_proton_def y0_def)
qed

lemma draw_gamma_pair_returns: "\<exists>c. draw_gamma_pair cv World_init = Inr c"
proof -
  obtain pts1 where a1: "arc (-6, 0) 6 0 0.9 True 120 = Inr pts1"
    using arc_returns[of 120 "(-6, 0)" 6 0 "0.9" True] by auto
  obtain c1 where p1: "polyline cv pts1 World_init THIN = Inr c1"
    using polyline_returns by blast
  obtain pts2 where a2: "arc (6, 0) 6 pi (pi - 0.9) False 120 = Inr pts2"
    using arc_returns[of 120 "(6, 0)" 6 pi "pi - 0.9" False] by auto
  obtain c2 where p2: "polyline c1 pts2 World_init THIN = Inr c2"
    using polyline_returns by blast
  obtain X Y where v: "to_canvas World_init 0 0 (of_int (cv_width c2)) (of_int (cv_height c2)) = Inr (X, Y)"
    using to_canvas_World_init by blast
  show ?thesis
    by (simp add: draw_gamma_pair_def a1 p1 a2 p2 v Let_def)
qed

lemma draw_catalog_returns:
  "sc \<in> set make_scenarios \<Longrightarrow> \<exists>c. draw sc cv World_init = Inr c"
  using draw_eplus_returns[of cv] draw_eminus_returns[of cv] draw_muminus_returns[of cv]
    draw_muplus_returns[of cv] draw_proton_returns[of cv] draw_gamma_pair_returns[of cv]
  by (auto simp: make_scenarios_def draw_neutron_def)

lemma Bfield_row_returns: "\<exists>c. Bfield_row cv World_init y xs = Inr c"
proof (induction xs arbitrary: cv)
  case Nil
  show ?case by simp
next
  case (Cons x xs)
  obtain X Y where t: "to_canvas World_init x y (of_int (cv_width cv)) (of_int (cv_height cv)) = Inr (X, Y)"
    using to_canvas_World_init by blast
  show ?case
    using Cons.IH by (simp add: t Let_def)
qed

lemma Bfield_grid_returns: "\<exists>c. Bfield_grid cv World_init xs ys = Inr c"
proof (induction ys arbitrary: cv)
  case Nil
  show ?case by simp
next
  case (Cons y ys)
  obtain c where "Bfield_row cv World_init y xs = Inr c"
    using Bfield_row_returns by blast
  then show ?case
    using Cons.IH by simp
qed

lemma draw_Bfield_returns: "\<exists>c. draw_Bfield cv World_init = Inr c"
proof -
  obtain c where "Bfield_grid cv World_init [-6, -2, 2, 6] [6, 3, 0, -3, -6] = Inr c"
    using Bfield_grid_returns by blast
  then show ?thesis
    by (simp add: draw_Bfield_def)
qed

lemma draw_axes_returns: "\<exists>c. draw_axes cv World_init = Inr c"
proof -
  let ?w = "real_of_int (cv_width cv)" and ?h = "real_of_int (cv_height cv)"
  obtain x0 y0 where a: "to_canvas World_init (-9) (-9) ?w ?h = Inr (x0, y0)"
    using to_canvas_World_init by blast
  obtain x1 y1 where b: "to_canvas World_init (-9) 9 ?w ?h = Inr (x1, y1)"
    using to_canvas_World_init by blast
  obtain x3 y3 where c: "to_canvas World_init 9 (-9) ?w ?h = Inr (x3, y3)"
    using to_canvas_World_init by blast
  show ?thesis
    by (simp add: draw_axes_def Let_def a b c)
qed

lemma draw_background_returns:
  assumes "world self = World_init"
  shows "\<exists>c. draw_background self = Inr (self\<lparr>canvas := c\<rparr>)"
proof -
  obtain c1 where b: "draw_Bfield (delete_all (canvas self)) World_init = Inr c1"
    using draw_Bfield_returns by blast
  obtain c2 where a: "draw_axes c1 World_init = Inr c2"
    using draw_axes_returns by blast
  let ?w = "real_of_int (cv_width c2)" and ?h = "real_of_int (cv_height c2)"
  obtain x0 y0 where t0: "to_canvas World_init 0 (- 0.5) ?w ?h = Inr (x0, y0)"
    using to_canvas_World_init by blast
  obtain x1 y1 where t1: "to_canvas World_init 0 0.5 ?w ?h = Inr (x1, y1)"
    using to_canvas_World_init by blast
  show ?thesis
    using t0 t1 by (simp add: draw_background_def assms b a Let_def) blast
qed

lemma nth_catalog: "make_scenarios ! (r mod 7) \<in> set make_scenarios"
  by (rule nth_mem) (simp add: make_scenarios_def)

lemma new_round_returns:
  assumes "world s = World_init" and "scenarios s = make_scenarios"
  shows "\<exists>c m. new_round r s =
           Inr (s\<lparr>answered := False, choice_var := [], msg := m,
                  current := Some (make_scenarios ! (r mod 7)), canvas := c\<rparr>)"
proof -
  let ?m = "''Pick the particle based on curvature (sign), radius (momentum), and line width (dE/dx).''"
  let ?s3 = "s\<lparr>answered := False, choice_var := [], msg := ?m\<rparr>"
  have w3: "world ?s3 = World_init" using assms(1) by simp
  obtain c where bg: "draw_background ?s3 = Inr (?s3\<lparr>canvas := c\<rparr>)"
    using draw_background_returns[OF w3] by blast
  have len: "length make_scenarios = 7" by (simp add: make_scenarios_def)
  have ne: "make_scenarios \<noteq> []" using len by auto
  obtain c' where d: "draw (make_scenarios ! (r mod 7)) c World_init = Inr c'"
    using draw_catalog_returns[OF nth_catalog] by blast
  have "new_round r s =
          Inr (s\<lparr>answered := False, choice_var := [], msg := ?m,
                 current := Some (make_scenarios ! (r mod 7)), canvas := c'\<rparr>)"
    by (simp add: new_round_def msg_set_def bg random_choice_def assms ne len d)
  then show ?thesis by blast
qed


lemma new_round_inv:
  assumes "world s = World_init" and "scenarios s = make_scenarios"
    and "0 \<le> score s" and "score s \<le> rounds s"
  shows "\<exists>s'. new_round r s = Inr s' \<and> page_inv s'
           \<and> score s' = score s \<and> rounds s' = rounds s
           \<and> current s' = Some (make_scenarios ! (r mod 7))
           \<and> \<not> answered s' \<and> choice_var s' = []"
proof -
  obtain c m where "new_round r s =
      Inr (s\<lparr>answered := False, choice_var := [], msg := m,
             current := Some (make_scenarios ! (r mod 7)), canvas := c\<rparr>)"
    using new_round_returns[OF assms(1,2)] by blast
  then show ?thesis
    using assms nth_catalog[of r] by (simp add: page_inv_def)
qed

lemma on_submit_inv:
  assumes "page_inv s"
  shows "\<exists>s'. on_submit s = Inr s' \<and> page_inv s'
           \<and> score s \<le> score s' \<and> rounds s \<le> rounds s'"
proof -
  obtain cur where cur: "current s = Some cur" and mem: "cur \<in> set make_scenarios"
    using assms by (auto simp: page_inv_def)
  obtain bits where b: "tag_bits_of (tags cur) = Inr bits"
    using tag_bits_catalog[OF mem] by blast
  show ?thesis
    using assms cur mem b
    by (auto simp: on_submit_def Let_def page_inv_def showinfo_def update_score_def msg_set_def)
qed

lemma step_inv:
  assumes "page_inv s"
  shows "\<exists>s'. step s c = Inr s' \<and> page_inv s'
           \<and> score s \<le> score s' \<and> rounds s \<le> rounds s'"
proof (cases c)
  case (NewRound r)
  from assms have "world s = World_init" "scenarios s = make_scenarios"
    "0 \<le> score s" "score s \<le> rounds s"
    by (simp_all add: page_inv_def)
  from new_round_inv[OF this, of r] show ?thesis
    by (auto simp: NewRound)
next
  case (Select x)
  then show ?thesis
    using assms by (simp add: page_inv_def)
next
  case Submit
  then show ?thesis
    using on_submit_inv[OF assms] by simp
next
  case (Next r)
  from assms have "world s = World_init" "scenarios s = make_scenarios"
    "0 \<le> score s" "score s \<le> rounds s"
    by (simp_all add: page_inv_def)
  from new_round_inv[OF this, of r] show ?thesis
    by (auto simp: Next on_next_def)
qed

lemma run_inv:
  "page_inv s \<Longrightarrow> \<exists>s'. run s cs = Inr s' \<and> page_inv s'
                        \<and> score s \<le> score s' \<and> rounds s \<le> rounds s'"
proof (induction cs arbitrary: s)
  case Nil
  then show ?case by simp
next
  case (Cons c cs)
  obtain s1 where s1: "step s c = Inr s1" and i1: "page_inv s1"
    and m1: "score s \<le> score s1" "rounds s \<le> rounds s1"
    using step_inv[OF Cons.prems] by blast
  obtain s2 where "run s1 cs = Inr s2" "page_inv s2" "score s1 \<le> score s2" "rounds s1 \<le> rounds s2"
    using Cons.IH[OF i1] by blast
  then show ?case
    using s1 m1 by auto
qed

lemma run_append: "run s (cs @ ds) = and_then (run s cs) (\<lambda>s'. run s' ds)"
proof (induction cs arbitrary: s)
  case Nil
  show ?case by simp
next
  case (Cons c cs)
  show ?case
    by (cases "step s c") (simp_all add: Cons.IH)
qed

lemma GamePage_init_inv:
  "\<exists>s0. GamePage_init r = Inr s0 \<and> page_inv s0 \<and> score s0 = 0 \<and> rounds s0 = 0
         \<and> current s0 = Some (make_scenarios ! (r mod 7))"
  unfolding GamePage_init_def
  by (rule exE[OF new_round_inv[of _ r]]) auto

subsection \<open>Invariants of the quiz state\<close>

text \<open>
  C2. Start from a freshly constructed game page (any first random draw \<open>r0\<close>) and make
  any sequence \<open>cs\<close> of calls (new round, selection, submit, next): no call raises, and
  afterwards \<open>0 \<le> score \<le> rounds\<close>. Continue with any further calls \<open>ds\<close>: neither
  \<open>score\<close> nor \<open>rounds\<close> has decreased. As \<open>cs\<close> and \<open>ds\<close> are arbitrary, the bounds
  hold after each call and the counters are monotone along the whole sequence.
\<close>

theorem score_le_rounds_invariant:
  "\<exists>s0 s s'. GamePage_init r0 = Inr s0
        \<and> run s0 cs = Inr s
        \<and> 0 \<le> score s \<and> score s \<le> rounds s
        \<and> run s ds = Inr s' \<and> run s0 (cs @ ds) = Inr s'
        \<and> score s \<le> score s' \<and> rounds s \<le> rounds s'"
proof -
  obtain s0 where i0: "GamePage_init r0 = Inr s0" and p0: "page_inv s0"
    using GamePage_init_inv by blast
  obtain s where r1: "run s0 cs = Inr s" and p1: "page_inv s"
    using run_inv[OF p0] by blast
  obtain s' where r2: "run s ds = Inr s'" and m: "score s \<le> score s'" "rounds s \<le> rounds s'"
    using run_inv[OF p1] by blast
  have "run s0 (cs @ ds) = Inr s'"
    by (simp add: run_append r1 r2)
  then show ?thesis
    using i0 r1 r2 m p1 by (auto simp: page_inv_def)
qed

text \<open>
  C10. Construction of the game page returns with the current scenario set to an entry of
  the catalog. After any sequence of calls the current scenario is still some entry of
  the seven-entry catalog, never \<^verbatim>\<open>None\<close>, and a submit call in that state returns:
  its reads of the answer, the explanation and the tags of the current scenario do not
  raise.
\<close>

theorem current_always_catalog_entry:
  "\<exists>s0 s cur s'. GamePage_init r0 = Inr s0
        \<and> current s0 = Some (make_scenarios ! (r0 mod 7))
        \<and> run s0 cs = Inr s
        \<and> current s = Some cur \<and> cur \<in> set make_scenarios
        \<and> length make_scenarios = 7
        \<and> on_submit s = Inr s'"
proof -
  obtain s0 where i0: "GamePage_init r0 = Inr s0" and p0: "page_inv s0"
    and c0: "current s0 = Some (make_scenarios ! (r0 mod 7))"
    using GamePage_init_inv by blast
  obtain s where r1: "run s0 cs = Inr s" and p1: "page_inv s"
    using run_inv[OF p0] by blast
  obtain cur where c: "current s = Some cur" "cur \<in> set make_scenarios"
    using p1 by (auto simp: page_inv_def)
  obtain s' where sub: "on_submit s = Inr s'"
    using on_submit_inv[OF p1] by blast
  have len: "length make_scenarios = 7"
    by (simp add: make_scenarios_def)
  show ?thesis
    using i0 c0 r1 c sub len by blast
qed

end
